theory Spec2Isabelle
  imports Complex_Main
begin

section \<open>Data model\<close>

text \<open>
  The trading service keeps its persistent state in a relational database (tables
  \<open>orders\<close>, \<open>trades\<close>, \<open>account_balances\<close>, \<open>account_transactions\<close>, with check
  constraints and triggers) and an in-memory order book per symbol. Amounts are the
  \<open>number\<close>s of the TypeScript interfaces and the \<open>DECIMAL(30, 10)\<close> columns of the
  schema; they are modelled as exact rationals, so rounding and column widths are outside
  the model. Identifiers produced by \<open>uuidv4()\<close> and \<open>uuid_generate_v4()\<close> are drawn from
  a counter, that is, every generated identifier is fresh. \<open>NOW()\<close> and \<open>new Date()\<close> are
  a timestamp handed to each operation. Field \<open>published\<close> of the state records what
  was sent to the message broker and the web socket clients, in order.
\<close>

type_synonym uuid = nat
type_synonym timestamp = nat

datatype OrderType = MARKET | LIMIT | STOP | STOP_LIMIT
datatype OrderSide = BUY | SELL
datatype OrderStatus = OPEN | PARTIALLY_FILLED | FILLED | CANCELLED | REJECTED | EXPIRED
datatype TimeInForce = GTC | IOC | FOK
datatype TransactionType = DEPOSIT | WITHDRAWAL
datatype TransactionStatus = PENDING | COMPLETED | FAILED | TX_CANCELLED

datatype error = Error string

record Order =
  oId :: uuid
  oUserId :: string
  oClientOrderId :: "string option"
  oSymbol :: string
  oType :: OrderType
  oSide :: OrderSide
  oPrice :: rat
  oQuantity :: rat
  oFilledQuantity :: rat
  oStatus :: OrderStatus
  oTimeInForce :: TimeInForce
  oCreatedAt :: timestamp
  oUpdatedAt :: timestamp
  oClosedAt :: "timestamp option"

record OrderData =
  dUserId :: string
  dClientOrderId :: "string option"
  dSymbol :: string
  dType :: OrderType
  dSide :: OrderSide
  dPrice :: rat
  dQuantity :: rat
  dTimeInForce :: TimeInForce

record Trade =
  tId :: uuid
  tOrderId :: uuid
  tUserId :: string
  tSymbol :: string
  tPrice :: rat
  tQuantity :: rat
  tCommission :: rat
  tCommissionAsset :: string
  tIsBuyer :: bool
  tIsMaker :: bool
  tIsBestMatch :: bool
  tCreatedAt :: timestamp

record AccountBalance =
  bUserId :: string
  bAsset :: string
  bFreeBalance :: rat
  bLockedBalance :: rat

record AccountTransaction =
  xId :: uuid
  xUserId :: string
  xType :: TransactionType
  xAsset :: string
  xAmount :: rat
  xFee :: rat
  xAddress :: "string option"
  xStatus :: TransactionStatus
  xCreatedAt :: timestamp

record OrderBook =
  bids :: "Order list"
  asks :: "Order list"

datatype Event =
  OrderUpdate Order
| NewTrade Trade
| TradingError string string
| NewOrderMessage OrderData
| CancelOrderMessage uuid string

record Db =
  orders :: "Order list"
  trades :: "Trade list"
  account_balances :: "AccountBalance list"
  account_transactions :: "AccountTransaction list"

record World =
  db :: Db
  orderBooks :: "string \<rightharpoonup> OrderBook"
  nextUuid :: uuid
  published :: "Event list"


section \<open>Account balances and transactions\<close>

text \<open>The check constraint \<open>valid_balances\<close> of table \<open>account_balances\<close>.\<close>

definition valid_balances :: "AccountBalance \<Rightarrow> bool" where
  "valid_balances r = (bFreeBalance r \<ge> 0 \<and> bLockedBalance r \<ge> 0)"

text \<open>The row selected by \<open>WHERE user_id = u AND asset = a\<close>; the pair is \<open>UNIQUE\<close>.\<close>

definition bal_key :: "string \<Rightarrow> string \<Rightarrow> AccountBalance \<Rightarrow> bool" where
  "bal_key u a r = (bUserId r = u \<and> bAsset r = a)"


datatype BalanceColumn = free_balance | locked_balance

fun set_column :: "BalanceColumn \<times> rat \<Rightarrow> AccountBalance \<Rightarrow> AccountBalance" where
  "set_column (free_balance, v) r = r\<lparr>bFreeBalance := v\<rparr>"
| "set_column (locked_balance, v) r = r\<lparr>bLockedBalance := v\<rparr>"

text \<open>
  \<open>INSERT INTO account_balances (user_id, asset, free_balance, locked_balance)
  VALUES ($1, $2, $3, $4) ON CONFLICT (user_id, asset) DO UPDATE SET ...\<close>, with
  \<open>p3\<close> and \<open>p4\<close> the parameters \<open>$3\<close> and \<open>$4\<close> and \<open>sets\<close> the assignments of the
  \<open>DO UPDATE\<close> clause. The statement returns the written row.
\<close>

definition upsert_balance ::
  "string \<Rightarrow> string \<Rightarrow> rat \<Rightarrow> rat \<Rightarrow> (BalanceColumn \<times> rat) list \<Rightarrow> AccountBalance list
     \<Rightarrow> error + (AccountBalance \<times> AccountBalance list)" where
  "upsert_balance u a p3 p4 sets rows =
     (case find (bal_key u a) rows of
        None \<Rightarrow>
          (let r = \<lparr>bUserId = u, bAsset = a, bFreeBalance = p3, bLockedBalance = p4\<rparr>
           in if valid_balances r then Inr (r, rows @ [r]) else Inl (Error ''valid_balances''))
      | Some old \<Rightarrow>
          (let r = fold set_column sets old
           in if valid_balances r
              then Inr (r, map (\<lambda>x. if bal_key u a x then fold set_column sets x else x) rows)
              else Inl (Error ''valid_balances'')))"

text \<open>
  \<open>AccountModel.updateBalance\<close>. The array \<open>values\<close> starts with the user and the asset
  (\<open>$1\<close>, \<open>$2\<close>); \<open>vals\<close> is the rest of it, so that parameter \<open>$i\<close> is \<open>vals ! (i - 3)\<close>.
  The supplied updates are pushed first and the defaults of the insert case after them,
  and the statement is run with the parameters bound by position: \<open>$3\<close> and \<open>$4\<close> are
  the first two values of \<open>vals\<close>, and the values pushed beyond the placeholders of the
  statement are not used by it. How the database driver treats such surplus values is
  outside the model.
\<close>

definition updateBalance ::
  "string \<Rightarrow> string \<Rightarrow> rat option \<Rightarrow> rat option \<Rightarrow> World \<Rightarrow> error + (AccountBalance \<times> World)" where
  "updateBalance userId asset freeBalance lockedBalance w =
     (let (updatesSet1, vals1) =
            (case freeBalance of None \<Rightarrow> ([], []) | Some f \<Rightarrow> ([(free_balance, 3::nat)], [f]));
          (updatesSet, vals2) =
            (case lockedBalance of
               None \<Rightarrow> (updatesSet1, vals1)
             | Some l \<Rightarrow> (updatesSet1 @ [(locked_balance, 3 + length vals1)], vals1 @ [l]))
      in if updatesSet = [] then Inl (Error ''No updates provided'')
         else
           (let vals = vals2 @ [case freeBalance of None \<Rightarrow> 0 | Some f \<Rightarrow> f,
                               case lockedBalance of None \<Rightarrow> 0 | Some l \<Rightarrow> l];
                param = (\<lambda>i. vals ! (i - 3))
            in case upsert_balance userId asset (param 3) (param 4)
                      (map (\<lambda>(c, i). (c, param i)) updatesSet) (account_balances (db w)) of
                 Inl e \<Rightarrow> Inl (Error ''Failed to update account balance'')
               | Inr (r, rows) \<Rightarrow> Inr (r, w\<lparr>db := (db w)\<lparr>account_balances := rows\<rparr>\<rparr>)))"

text \<open>
  \<open>AccountModel.createTransaction\<close>: the inserted status is always \<open>PENDING\<close>; the
  table checks \<open>amount > 0\<close> and \<open>fee >= 0\<close>.
\<close>

definition createTransaction ::
  "timestamp \<Rightarrow> string \<Rightarrow> TransactionType \<Rightarrow> string \<Rightarrow> rat \<Rightarrow> rat \<Rightarrow> string option \<Rightarrow> World
     \<Rightarrow> error + (AccountTransaction \<times> World)" where
  "createTransaction now userId type asset amount fee address w =
     (let tx = \<lparr>xId = nextUuid w, xUserId = userId, xType = type, xAsset = asset,
                 xAmount = amount, xFee = fee, xAddress = address, xStatus = PENDING,
                 xCreatedAt = now\<rparr>
      in if amount > 0 \<and> fee \<ge> 0
         then Inr (tx, w\<lparr>db := (db w)\<lparr>account_transactions := account_transactions (db w) @ [tx]\<rparr>,
                         nextUuid := Suc (nextUuid w)\<rparr>)
         else Inl (Error ''Failed to create transaction''))"

text \<open>\<open>ROLLBACK\<close> restores the tables; memory, identifiers and messages sent stay.\<close>

definition rollback :: "World \<Rightarrow> World \<Rightarrow> World" where
  "rollback w0 w = w\<lparr>db := db w0\<rparr>"

text \<open>\<open>TradingService.depositFunds\<close>.\<close>

definition depositFunds ::
  "timestamp \<Rightarrow> string \<Rightarrow> string \<Rightarrow> rat \<Rightarrow> World \<Rightarrow> (error + AccountTransaction) \<times> World" where
  "depositFunds now userId asset amount w =
     (case createTransaction now userId DEPOSIT asset amount 0 None w of
        Inl e \<Rightarrow> (Inl e, rollback w w)
      | Inr (transaction, w1) \<Rightarrow>
          (case updateBalance userId asset (Some amount) None w1 of
             Inl e \<Rightarrow> (Inl e, rollback w w1)
           | Inr (r, w2) \<Rightarrow> (Inr transaction, w2)))"

section \<open>Tables \<open>orders\<close> and \<open>trades\<close> with their triggers\<close>

text \<open>\<open>UPDATE account_balances SET ... WHERE P\<close>, with the check constraint on the rows written.\<close>

definition update_balances ::
  "(AccountBalance \<Rightarrow> bool) \<Rightarrow> (AccountBalance \<Rightarrow> AccountBalance) \<Rightarrow> AccountBalance list
     \<Rightarrow> error + AccountBalance list" where
  "update_balances P f rows =
     (if list_all valid_balances (map f (filter P rows))
      then Inr (map (\<lambda>r. if P r then f r else r) rows)
      else Inl (Error ''valid_balances''))"

text \<open>\<open>INSERT INTO account_balances\<close> without conflict clause.\<close>

definition insert_balance :: "AccountBalance \<Rightarrow> AccountBalance list \<Rightarrow> error + AccountBalance list" where
  "insert_balance r rows =
     (if \<not> valid_balances r then Inl (Error ''valid_balances'')
      else if find (bal_key (bUserId r) (bAsset r)) rows \<noteq> None
      then Inl (Error ''account_balances_user_id_asset_key'')
      else Inr (rows @ [r]))"

text \<open>The SQL string functions the triggers use on the symbol.\<close>

definition sql_LEFT :: "string \<Rightarrow> nat \<Rightarrow> string" where
  "sql_LEFT s n = take n s"

definition sql_RIGHT :: "string \<Rightarrow> int \<Rightarrow> string" where
  "sql_RIGHT s n = (if n \<ge> 0 then drop (length s - nat n) s else drop (nat (- n)) s)"

text \<open>The JavaScript \<open>symbol.slice(0, -3)\<close> and \<open>symbol.slice(-3)\<close> of the service.\<close>

definition slice_base :: "string \<Rightarrow> string" where
  "slice_base symbol = take (length symbol - 3) symbol"

definition slice_quote :: "string \<Rightarrow> string" where
  "slice_quote symbol = drop (length symbol - 3) symbol"

text \<open>
  Trigger \<open>lock_order_funds\<close>, \<open>BEFORE INSERT ON orders\<close>: the asset and the amount it
  locks, then the function itself on the balance rows.
\<close>

definition lock_requirement :: "Order \<Rightarrow> string \<times> rat" where
  "lock_requirement NEW =
     (let base_asset = sql_RIGHT (oSymbol NEW) (int (length (oSymbol NEW)) - 3);
          quote_asset = sql_LEFT (oSymbol NEW) 3
      in if oSide NEW = BUY then (quote_asset, oPrice NEW * oQuantity NEW)
         else (base_asset, oQuantity NEW))"

definition lock_order_funds :: "Order \<Rightarrow> AccountBalance list \<Rightarrow> error + AccountBalance list" where
  "lock_order_funds NEW rows =
     (case lock_requirement NEW of
        (asset_to_lock, amount_to_lock) \<Rightarrow>
          (case find (bal_key (oUserId NEW) asset_to_lock) rows of
             None \<Rightarrow> Inl (Error ''Insufficient balance for order'')
           | Some current_balance \<Rightarrow>
               if bFreeBalance current_balance < amount_to_lock
               then Inl (Error ''Insufficient balance for order'')
               else update_balances (bal_key (oUserId NEW) asset_to_lock)
                      (\<lambda>r. r\<lparr>bFreeBalance := bFreeBalance r - amount_to_lock,
                             bLockedBalance := bLockedBalance r + amount_to_lock\<rparr>) rows))"

text \<open>
  \<open>INSERT INTO orders\<close>: the trigger first, then the check constraints
  \<open>valid_quantity\<close> and \<open>valid_filled_quantity\<close>, the primary key and the unique
  \<open>client_order_id\<close>. A failing statement changes nothing.
\<close>

definition insert_order :: "Order \<Rightarrow> Db \<Rightarrow> error + Db" where
  "insert_order NEW d =
     (case lock_order_funds NEW (account_balances d) of
        Inl e \<Rightarrow> Inl e
      | Inr rows \<Rightarrow>
          if \<not> oQuantity NEW > 0 then Inl (Error ''valid_quantity'')
          else if \<not> (oFilledQuantity NEW \<ge> 0 \<and> oFilledQuantity NEW \<le> oQuantity NEW)
          then Inl (Error ''valid_filled_quantity'')
          else if oId NEW \<in> set (map oId (orders d)) then Inl (Error ''orders_pkey'')
          else if oClientOrderId NEW \<noteq> None \<and>
                  oClientOrderId NEW \<in> set (map oClientOrderId (orders d))
          then Inl (Error ''orders_client_order_id_key'')
          else Inr (d\<lparr>orders := orders d @ [NEW], account_balances := rows\<rparr>))"

text \<open>
  \<open>INSERT INTO trades\<close>: checks \<open>valid_trade_quantity\<close> and \<open>valid_commission\<close>, the
  foreign key to \<open>orders\<close> and the primary key.
\<close>

definition insert_trade :: "Trade \<Rightarrow> Db \<Rightarrow> error + Db" where
  "insert_trade t d =
     (if \<not> tQuantity t > 0 then Inl (Error ''valid_trade_quantity'')
      else if \<not> tCommission t \<ge> 0 then Inl (Error ''valid_commission'')
      else if tOrderId t \<notin> set (map oId (orders d)) then Inl (Error ''trades_order_id_fkey'')
      else if tId t \<in> set (map tId (trades d)) then Inl (Error ''trades_pkey'')
      else Inr (d\<lparr>trades := trades d @ [t]\<rparr>))"

text \<open>
  Trigger \<open>process_order_fill\<close>, \<open>AFTER UPDATE OF filled_quantity ON orders\<close>, run when
  the filled quantity grew. \<open>d\<close> is the database with the row already updated, so the
  order details it selects are those of \<open>NEW\<close>; what it assigns to \<open>NEW.status\<close> at its
  end has no effect in an \<open>AFTER\<close> trigger. Both balance rows are read before either is
  written.
\<close>

definition process_order_fill :: "timestamp \<Rightarrow> uuid \<Rightarrow> Order \<Rightarrow> Order \<Rightarrow> Db \<Rightarrow> error + Db" where
  "process_order_fill now trade_id_val NEW OLD d =
     (if oFilledQuantity NEW = oFilledQuantity OLD then Inr d
      else
        (let user_id_val = oUserId NEW;
             symbol_val = oSymbol NEW;
             order_side_val = oSide NEW;
             price_val = oPrice NEW;
             base_asset = sql_RIGHT symbol_val (int (length symbol_val) - 3);
             quote_asset = sql_LEFT symbol_val 3;
             trade_amount = oFilledQuantity NEW - oFilledQuantity OLD;
             trade_value = trade_amount * price_val;
             commission_asset_val = quote_asset;
             commission_val = trade_value * (1 / 1000);
             is_maker_val =
               list_ex (\<lambda>o'. oSymbol o' = symbol_val \<and>
                              ((oSide o' = BUY \<and> oPrice o' \<ge> price_val) \<or>
                               (oSide o' = SELL \<and> oPrice o' \<le> price_val)) \<and>
                              oId o' \<noteq> oId NEW) (orders d);
             is_buyer_val = (order_side_val = BUY);
             trade_record =
               \<lparr>tId = trade_id_val, tOrderId = oId NEW, tUserId = user_id_val,
                tSymbol = symbol_val, tPrice = price_val, tQuantity = trade_amount,
                tCommission = commission_val, tCommissionAsset = commission_asset_val,
                tIsBuyer = is_buyer_val, tIsMaker = is_maker_val, tIsBestMatch = True,
                tCreatedAt = now\<rparr>
         in case insert_trade trade_record d of
              Inl e \<Rightarrow> Inl e
            | Inr d1 \<Rightarrow>
                (let rows = account_balances d1;
                     base_balance = find (bal_key user_id_val base_asset) rows;
                     quote_balance = find (bal_key user_id_val quote_asset) rows
                 in if order_side_val = BUY then
                      (case (if base_balance = None
                             then insert_balance
                                    \<lparr>bUserId = user_id_val, bAsset = base_asset,
                                     bFreeBalance = trade_amount - commission_val,
                                     bLockedBalance = 0\<rparr> rows
                             else update_balances (bal_key user_id_val base_asset)
                                    (\<lambda>r. r\<lparr>bFreeBalance :=
                                             bFreeBalance r + trade_amount - commission_val\<rparr>)
                                    rows) of
                         Inl e \<Rightarrow> Inl e
                       | Inr rows1 \<Rightarrow>
                           if quote_balance = None then Inl (Error ''Insufficient quote balance'')
                           else
                             (case update_balances
                                     (\<lambda>r. bal_key user_id_val quote_asset r \<and>
                                          bLockedBalance r \<ge> trade_value)
                                     (\<lambda>r. r\<lparr>bLockedBalance := bLockedBalance r - trade_value\<rparr>)
                                     rows1 of
                                Inl e \<Rightarrow> Inl e
                              | Inr rows2 \<Rightarrow> Inr (d1\<lparr>account_balances := rows2\<rparr>)))
                    else
                      (case (if quote_balance = None
                             then insert_balance
                                    \<lparr>bUserId = user_id_val, bAsset = quote_asset,
                                     bFreeBalance = trade_value - commission_val,
                                     bLockedBalance = 0\<rparr> rows
                             else update_balances (bal_key user_id_val quote_asset)
                                    (\<lambda>r. r\<lparr>bFreeBalance :=
                                             bFreeBalance r + trade_value - commission_val\<rparr>)
                                    rows) of
                         Inl e \<Rightarrow> Inl e
                       | Inr rows1 \<Rightarrow>
                           if base_balance = None then Inl (Error ''Insufficient base balance'')
                           else
                             (case update_balances
                                     (\<lambda>r. bal_key user_id_val base_asset r \<and>
                                          bLockedBalance r \<ge> trade_amount)
                                     (\<lambda>r. r\<lparr>bLockedBalance := bLockedBalance r - trade_amount\<rparr>)
                                     rows1 of
                                Inl e \<Rightarrow> Inl e
                              | Inr rows2 \<Rightarrow> Inr (d1\<lparr>account_balances := rows2\<rparr>))))))"

text \<open>
  Trigger \<open>unlock_order_funds\<close>, \<open>BEFORE UPDATE ON orders\<close>, run when the status becomes
  \<open>CANCELLED\<close>. Its exception handler swallows every error, leaving the balances as they
  were.
\<close>

definition unlock_order_funds :: "Order \<Rightarrow> Order \<Rightarrow> AccountBalance list \<Rightarrow> AccountBalance list" where
  "unlock_order_funds NEW OLD rows =
     (if oStatus NEW \<noteq> CANCELLED \<or> oStatus OLD = CANCELLED then rows
      else
        (let base_asset = sql_RIGHT (oSymbol NEW) (int (length (oSymbol NEW)) - 3);
             quote_asset = sql_LEFT (oSymbol NEW) 3;
             remaining_quantity = oQuantity NEW - oFilledQuantity NEW
         in if remaining_quantity \<le> 0 then rows
            else
              (let (asset_to_unlock, amount_to_unlock) =
                     (if oSide NEW = BUY then (quote_asset, oPrice NEW * remaining_quantity)
                      else (base_asset, remaining_quantity))
               in case update_balances (bal_key (oUserId NEW) asset_to_unlock)
                         (\<lambda>r. r\<lparr>bLockedBalance := bLockedBalance r - amount_to_unlock,
                                bFreeBalance := bFreeBalance r + amount_to_unlock\<rparr>) rows of
                    Inl e \<Rightarrow> rows
                  | Inr rows' \<Rightarrow> rows')))"

section \<open>Order and trade models\<close>

text \<open>
  \<open>OrderModel.createOrder\<close>. The status and the filled quantity of the argument are not
  used: the row is inserted \<open>OPEN\<close> with the column default \<open>0\<close>.
\<close>

definition newOrderRow :: "timestamp \<Rightarrow> uuid \<Rightarrow> OrderData \<Rightarrow> Order" where
  "newOrderRow now uid orderData =
     \<lparr>oId = uid, oUserId = dUserId orderData,
      oClientOrderId =
        (case dClientOrderId orderData of
           None \<Rightarrow> None
         | Some c \<Rightarrow> if c = [] then None else Some c),
      oSymbol = dSymbol orderData, oType = dType orderData, oSide = dSide orderData,
      oPrice = dPrice orderData, oQuantity = dQuantity orderData,
      oFilledQuantity = 0, oStatus = OPEN, oTimeInForce = dTimeInForce orderData,
      oCreatedAt = now, oUpdatedAt = now, oClosedAt = None\<rparr>"

definition createOrder :: "timestamp \<Rightarrow> OrderData \<Rightarrow> World \<Rightarrow> error + (Order \<times> World)" where
  "createOrder now orderData w =
     (let row = newOrderRow now (nextUuid w) orderData
      in case insert_order row (db w) of
           Inl e \<Rightarrow> Inl (Error ''Failed to create order'')
         | Inr d \<Rightarrow> Inr (row, w\<lparr>db := d, nextUuid := Suc (nextUuid w)\<rparr>))"

text \<open>\<open>OrderModel.getOrderById\<close>.\<close>

definition getOrderById :: "uuid \<Rightarrow> string \<Rightarrow> World \<Rightarrow> Order option" where
  "getOrderById orderId userId w =
     find (\<lambda>o'. oId o' = orderId \<and> oUserId o' = userId) (orders (db w))"

text \<open>
  \<open>OrderModel.cancelOrder\<close>: the update applies to the row with the given id and user
  when its status is \<open>OPEN\<close> or \<open>PARTIALLY_FILLED\<close>, and returns it; \<open>id\<close> is the primary
  key. Both \<open>BEFORE UPDATE\<close> triggers run; \<open>process_order_fill\<close> does not, since the
  statement does not assign \<open>filled_quantity\<close>.
\<close>

definition cancelOrder :: "timestamp \<Rightarrow> uuid \<Rightarrow> string \<Rightarrow> World \<Rightarrow> Order option \<times> World" where
  "cancelOrder now orderId userId w =
     (case find (\<lambda>o'. oId o' = orderId \<and> oUserId o' = userId \<and>
                      (oStatus o' = OPEN \<or> oStatus o' = PARTIALLY_FILLED)) (orders (db w)) of
        None \<Rightarrow> (None, w)
      | Some OLD \<Rightarrow>
          (let NEW = OLD\<lparr>oStatus := CANCELLED, oClosedAt := Some now\<rparr>;
               rows = unlock_order_funds NEW OLD (account_balances (db w));
               NEW' = NEW\<lparr>oUpdatedAt := now\<rparr>
           in (Some NEW',
               w\<lparr>db := (db w)\<lparr>orders := map (\<lambda>o'. if oId o' = orderId then NEW' else o')
                                              (orders (db w)),
                               account_balances := rows\<rparr>\<rparr>)))"

text \<open>
  \<open>OrderModel.updateOrderFilledQuantity\<close>: the \<open>CASE\<close> expressions of the statement, the
  trigger that stamps \<open>updated_at\<close>, the check \<open>valid_filled_quantity\<close>, and trigger
  \<open>process_order_fill\<close> when the filled quantity grew. Trigger \<open>unlock_order_funds\<close>
  cannot run here: the new status is \<open>CANCELLED\<close> only when the old one was.
\<close>

definition updateOrderFilledQuantity ::
  "timestamp \<Rightarrow> uuid \<Rightarrow> rat \<Rightarrow> World \<Rightarrow> error + (Order option \<times> World)" where
  "updateOrderFilledQuantity now orderId filledQuantity w =
     (case find (\<lambda>o'. oId o' = orderId) (orders (db w)) of
        None \<Rightarrow> Inr (None, w)
      | Some OLD \<Rightarrow>
          (let NEW = OLD\<lparr>oFilledQuantity := filledQuantity,
                         oStatus := (if filledQuantity \<ge> oQuantity OLD then FILLED
                                     else if filledQuantity > 0 then PARTIALLY_FILLED
                                     else oStatus OLD),
                         oClosedAt := (if filledQuantity \<ge> oQuantity OLD then Some now
                                       else oClosedAt OLD),
                         oUpdatedAt := now\<rparr>
           in if \<not> (oFilledQuantity NEW \<ge> 0 \<and> oFilledQuantity NEW \<le> oQuantity NEW)
              then Inl (Error ''Failed to update order filled quantity'')
              else
                (let d1 = (db w)\<lparr>orders := map (\<lambda>o'. if oId o' = orderId then NEW else o')
                                               (orders (db w))\<rparr>
                 in if oFilledQuantity NEW > oFilledQuantity OLD
                    then (case process_order_fill now (nextUuid w) NEW OLD d1 of
                            Inl e \<Rightarrow> Inl (Error ''Failed to update order filled quantity'')
                          | Inr d2 \<Rightarrow> Inr (Some NEW, w\<lparr>db := d2, nextUuid := Suc (nextUuid w)\<rparr>))
                    else Inr (Some NEW, w\<lparr>db := d1\<rparr>))))"

text \<open>
  \<open>OrderModel.getOpenOrdersBySymbol\<close>: the \<open>ORDER BY\<close> puts the sell orders first, by
  ascending price, then the buy orders by descending price, each by creation time within
  a price.
\<close>

definition getOpenOrdersBySymbol :: "string \<Rightarrow> nat \<Rightarrow> World \<Rightarrow> Order list" where
  "getOpenOrdersBySymbol symbol limit w =
     (let rows = filter (\<lambda>o'. oSymbol o' = symbol \<and>
                              (oStatus o' = OPEN \<or> oStatus o' = PARTIALLY_FILLED))
                   (orders (db w));
          sells = sort_key oPrice (sort_key oCreatedAt (filter (\<lambda>o'. oSide o' = SELL) rows));
          buys = sort_key (\<lambda>o'. - oPrice o')
                   (sort_key oCreatedAt (filter (\<lambda>o'. oSide o' = BUY) rows))
      in take limit (sells @ buys))"

text \<open>\<open>TradeModel.createTrade\<close>: the id and the creation time of the argument are replaced.\<close>

definition createTrade :: "timestamp \<Rightarrow> Trade \<Rightarrow> World \<Rightarrow> error + (Trade \<times> World)" where
  "createTrade now tradeData w =
     (let row = tradeData\<lparr>tId := nextUuid w, tCreatedAt := now\<rparr>
      in case insert_trade row (db w) of
           Inl e \<Rightarrow> Inl (Error ''Failed to create trade'')
         | Inr d \<Rightarrow> Inr (row, w\<lparr>db := d, nextUuid := Suc (nextUuid w)\<rparr>))"


section \<open>The trading service\<close>

definition publishOrderUpdate :: "Order \<Rightarrow> World \<Rightarrow> World" where
  "publishOrderUpdate order w = w\<lparr>published := published w @ [OrderUpdate order]\<rparr>"

definition publishTrade :: "Trade \<Rightarrow> World \<Rightarrow> World" where
  "publishTrade trade w = w\<lparr>published := published w @ [NewTrade trade]\<rparr>"

text \<open>
  \<open>addToOrderBook\<close>: a symbol without a book gets one from the open orders of the
  database; then the order is pushed on its side and the side sorted
  (\<open>Array.prototype.sort\<close> is stable).
\<close>

definition addToOrderBook :: "Order \<Rightarrow> World \<Rightarrow> World" where
  "addToOrderBook order w =
     (let orderBook =
            (case orderBooks w (oSymbol order) of
               None \<Rightarrow>
                 (let openOrders = getOpenOrdersBySymbol (oSymbol order) 1000 w
                  in \<lparr>bids = filter (\<lambda>o'. oSide o' = BUY) openOrders,
                      asks = filter (\<lambda>o'. oSide o' = SELL) openOrders\<rparr>)
             | Some ob \<Rightarrow> ob);
          orderBook' =
            (if oSide order = BUY
             then orderBook\<lparr>bids := sort_key (\<lambda>o'. - oPrice o') (bids orderBook @ [order])\<rparr>
             else orderBook\<lparr>asks := sort_key oPrice (asks orderBook @ [order])\<rparr>)
      in w\<lparr>orderBooks := (orderBooks w)(oSymbol order \<mapsto> orderBook')\<rparr>)"

text \<open>
  \<open>updateBalancesForTrade\<close>: both calls are for \<open>trade.userId\<close>, and each passes the
  amount as the new free balance.
\<close>

definition updateBalancesForTrade :: "Trade \<Rightarrow> World \<Rightarrow> error + World" where
  "updateBalancesForTrade trade w =
     (let baseAsset = slice_base (tSymbol trade);
          quoteAsset = slice_quote (tSymbol trade)
      in case updateBalance (tUserId trade) baseAsset (Some (tQuantity trade)) None w of
           Inl e \<Rightarrow> Inl e
         | Inr (r1, w1) \<Rightarrow>
             (case updateBalance (tUserId trade) quoteAsset
                     (Some (tPrice trade * tQuantity trade)) None w1 of
                Inl e \<Rightarrow> Inl e
              | Inr (r2, w2) \<Rightarrow> Inr w2))"

text \<open>
  The trade \<open>matchOrders\<close> builds for the best bid and the best ask (the id and the
  creation time are assigned by \<open>createTrade\<close>).
\<close>

definition matchTrade :: "string \<Rightarrow> Order \<Rightarrow> Order \<Rightarrow> Trade" where
  "matchTrade symbol bestBid bestAsk =
     (let quantity = min (oQuantity bestBid - oFilledQuantity bestBid)
                         (oQuantity bestAsk - oFilledQuantity bestAsk);
          price = oPrice bestAsk
      in \<lparr>tId = 0, tOrderId = oId bestBid, tUserId = oUserId bestBid, tSymbol = symbol,
          tPrice = price, tQuantity = quantity, tCommission = quantity * price * (1 / 1000),
          tCommissionAsset = slice_quote symbol, tIsBuyer = True, tIsMaker = False,
          tIsBestMatch = True, tCreatedAt = 0\<rparr>)"

text \<open>
  One pass through the body of the \<open>while\<close> loop of \<open>matchOrders\<close>. The result is
  \<open>Inr True\<close> when the body ran to its end (the loop goes on), \<open>Inr False\<close> when the loop
  is left (a side is empty, or the best prices do not cross), and \<open>Inl\<close> when a call
  threw. \<open>bestBid\<close> and \<open>bestAsk\<close> are the objects in the book: the updates go to the
  database, the objects keep their \<open>filledQuantity\<close>.
\<close>

definition matchIteration :: "timestamp \<Rightarrow> string \<Rightarrow> World \<Rightarrow> (error + bool) \<times> World" where
  "matchIteration now symbol w =
     (case orderBooks w symbol of
        None \<Rightarrow> (Inr False, w)
      | Some orderBook \<Rightarrow>
          (case (bids orderBook, asks orderBook) of
             (bestBid # bidsRest, bestAsk # asksRest) \<Rightarrow>
               if oPrice bestBid \<ge> oPrice bestAsk then
                 (let trade = matchTrade symbol bestBid bestAsk;
                      quantity = tQuantity trade
                  in case createTrade now trade w of
                       Inl e \<Rightarrow> (Inl e, w)
                     | Inr (createdTrade, w1) \<Rightarrow>
                   (case updateOrderFilledQuantity now (oId bestBid)
                           (oFilledQuantity bestBid + quantity) w1 of
                       Inl e \<Rightarrow> (Inl e, w1)
                     | Inr (r2, w2) \<Rightarrow>
                   (case updateOrderFilledQuantity now (oId bestAsk)
                           (oFilledQuantity bestAsk + quantity) w2 of
                       Inl e \<Rightarrow> (Inl e, w2)
                     | Inr (r3, w3) \<Rightarrow>
                   (case updateBalancesForTrade createdTrade w3 of
                       Inl e \<Rightarrow> (Inl e, w3)
                     | Inr w4 \<Rightarrow>
                         (let bids' = (if oFilledQuantity bestBid \<ge> oQuantity bestBid
                                       then bidsRest else bids orderBook);
                              asks' = (if oFilledQuantity bestAsk \<ge> oQuantity bestAsk
                                       then asksRest else asks orderBook);
                              w5 = w4\<lparr>orderBooks :=
                                        (orderBooks w4)(symbol \<mapsto> \<lparr>bids = bids', asks = asks'\<rparr>)\<rparr>;
                              w6 = publishTrade createdTrade w5;
                              w7 = (case getOrderById (oId bestBid) (oUserId bestBid) w6 of
                                      None \<Rightarrow> w6
                                    | Some updatedBid \<Rightarrow> publishOrderUpdate updatedBid w6);
                              w8 = (case getOrderById (oId bestAsk) (oUserId bestAsk) w7 of
                                      None \<Rightarrow> w7
                                    | Some updatedAsk \<Rightarrow> publishOrderUpdate updatedAsk w7)
                          in (Inr True, w8))))))
               else (Inr False, w)
           | _ \<Rightarrow> (Inr False, w)))"

text \<open>
  \<open>matchOrders\<close>: the loop, with a bound on the number of passes. The result is \<open>None\<close>
  when the bound is used up before the loop is left.
\<close>

fun matchOrders :: "nat \<Rightarrow> timestamp \<Rightarrow> string \<Rightarrow> World \<Rightarrow> ((error + unit) \<times> World) option" where
  "matchOrders 0 now symbol w = None"
| "matchOrders (Suc fuel) now symbol w =
     (case matchIteration now symbol w of
        (Inl e, w') \<Rightarrow> Some (Inl e, w')
      | (Inr False, w') \<Rightarrow> Some (Inr (), w')
      | (Inr True, w') \<Rightarrow> matchOrders fuel now symbol w')"

text \<open>\<open>handleNewOrder\<close>, for the order data parsed from the message.\<close>

definition handleNewOrder ::
  "nat \<Rightarrow> timestamp \<Rightarrow> OrderData \<Rightarrow> World \<Rightarrow> ((error + unit) \<times> World) option" where
  "handleNewOrder fuel now orderData w =
     (case createOrder now orderData w of
        Inl e \<Rightarrow> Some (Inl e, w)
      | Inr (order, w1) \<Rightarrow>
          (case matchOrders fuel now (oSymbol order) (addToOrderBook order w1) of
             None \<Rightarrow> None
           | Some (Inl e, w3) \<Rightarrow> Some (Inl e, w3)
           | Some (Inr u, w3) \<Rightarrow> Some (Inr (), publishOrderUpdate order w3)))"

text \<open>\<open>handleCancelOrder\<close>, for the order id and user parsed from the message.\<close>

definition handleCancelOrder :: "timestamp \<Rightarrow> uuid \<Rightarrow> string \<Rightarrow> World \<Rightarrow> (error + bool) \<times> World" where
  "handleCancelOrder now orderId userId w =
     (case cancelOrder now orderId userId w of
        (None, w1) \<Rightarrow> (Inl (Error ''Order not found or already cancelled''), w1)
      | (Some cancelledOrder, w1) \<Rightarrow>
          (let w2 =
                 (case orderBooks w1 (oSymbol cancelledOrder) of
                    None \<Rightarrow> w1
                  | Some orderBook \<Rightarrow>
                      w1\<lparr>orderBooks := (orderBooks w1)(oSymbol cancelledOrder \<mapsto>
                           (if oSide cancelledOrder = BUY
                            then orderBook\<lparr>bids := filter (\<lambda>o'. oId o' \<noteq> orderId) (bids orderBook)\<rparr>
                            else orderBook\<lparr>asks := filter (\<lambda>o'. oId o' \<noteq> orderId) (asks orderBook)\<rparr>))\<rparr>)
           in (Inr True, publishOrderUpdate cancelledOrder w2)))"

text \<open>
  The consumer's \<open>eachMessage\<close>: the handler runs between \<open>BEGIN\<close> and \<open>COMMIT\<close>; when
  it throws, the transaction is rolled back and the error is sent to topic
  \<open>trading-errors\<close> with the topic of the message as key.
\<close>

datatype Message = NewOrders OrderData | CancelOrders uuid string

definition onError :: "string \<Rightarrow> error \<Rightarrow> World \<Rightarrow> World \<Rightarrow> World" where
  "onError topic e w0 w =
     (case e of Error m \<Rightarrow>
        (rollback w0 w)\<lparr>published := published w @ [TradingError topic m]\<rparr>)"

definition eachMessage :: "nat \<Rightarrow> timestamp \<Rightarrow> Message \<Rightarrow> World \<Rightarrow> World option" where
  "eachMessage fuel now message w =
     (case message of
        NewOrders orderData \<Rightarrow>
          (case handleNewOrder fuel now orderData w of
             None \<Rightarrow> None
           | Some (Inl e, w') \<Rightarrow> Some (onError ''new-orders'' e w w')
           | Some (Inr u, w') \<Rightarrow> Some w')
      | CancelOrders orderId userId \<Rightarrow>
          (case handleCancelOrder now orderId userId w of
             (Inl e, w') \<Rightarrow> Some (onError ''cancel-orders'' e w w')
           | (Inr b, w') \<Rightarrow> Some w'))"

text \<open>
  The public \<open>TradingService.createOrder\<close> and \<open>TradingService.cancelOrder\<close>: each sends
  a message for the consumer and returns at once.
\<close>

definition TradingService_createOrder :: "timestamp \<Rightarrow> OrderData \<Rightarrow> World \<Rightarrow> Order \<times> World" where
  "TradingService_createOrder now orderData w =
     (let w1 = w\<lparr>published := published w @ [NewOrderMessage orderData]\<rparr>
      in (\<lparr>oId = nextUuid w1, oUserId = dUserId orderData,
           oClientOrderId = dClientOrderId orderData, oSymbol = dSymbol orderData,
           oType = dType orderData, oSide = dSide orderData, oPrice = dPrice orderData,
           oQuantity = dQuantity orderData, oFilledQuantity = 0, oStatus = OPEN,
           oTimeInForce = dTimeInForce orderData, oCreatedAt = now, oUpdatedAt = now,
           oClosedAt = None\<rparr>,
          w1\<lparr>nextUuid := Suc (nextUuid w1)\<rparr>))"

definition TradingService_cancelOrder :: "uuid \<Rightarrow> string \<Rightarrow> World \<Rightarrow> bool \<times> World" where
  "TradingService_cancelOrder orderId userId w =
     (True, w\<lparr>published := published w @ [CancelOrderMessage orderId userId]\<rparr>)"


section \<open>Runs of the service\<close>

text \<open>
  What can happen to the state: the consumer handles a message, or a client calls
  \<open>createOrder\<close>, \<open>cancelOrder\<close> or \<open>depositFunds\<close> of the service. A run is \<open>None\<close>
  when one of its steps does not return.
\<close>

datatype Command =
  Consume nat timestamp Message
| Submit timestamp OrderData
| Cancel uuid string
| Deposit timestamp string string rat

fun exec :: "Command \<Rightarrow> World \<Rightarrow> World option" where
  "exec (Consume fuel now message) w = eachMessage fuel now message w"
| "exec (Submit now orderData) w = Some (snd (TradingService_createOrder now orderData w))"
| "exec (Cancel orderId userId) w = Some (snd (TradingService_cancelOrder orderId userId w))"
| "exec (Deposit now userId asset amount) w = Some (snd (depositFunds now userId asset amount w))"

fun run :: "Command list \<Rightarrow> World \<Rightarrow> World option" where
  "run [] w = Some w"
| "run (c # cs) w = (case exec c w of None \<Rightarrow> None | Some w' \<Rightarrow> run cs w')"

text \<open>
  From one state to a later one the identifier counter does not go back, and every stored
  order either was stored before or has an identifier drawn in between.
\<close>

definition ext :: "World \<Rightarrow> World \<Rightarrow> bool" where
  "ext w w' =
     (nextUuid w \<le> nextUuid w' \<and>
      list_all (\<lambda>i. i \<in> set (map oId (orders (db w))) \<or> (nextUuid w \<le> i \<and> i < nextUuid w'))
        (map oId (orders (db w'))))"

text \<open>The identifiers of the stored orders have all been drawn.\<close>

definition ids_drawn :: "World \<Rightarrow> bool" where
  "ids_drawn w = list_all (\<lambda>o'. oId o' < nextUuid w) (orders (db w))"


section \<open>Scenarios\<close>

text \<open>
  Two users hold 10 of each asset. On symbol \<open>ETHBTC\<close> the service's
  \<open>slice(0, -3)\<close> gives base \<open>ETH\<close> and \<open>slice(-3)\<close> gives quote \<open>BTC\<close>.
\<close>

definition funded_world :: World where
  "funded_world =
     \<lparr>db = \<lparr>orders = [], trades = [],
             account_balances =
               [\<lparr>bUserId = ''alice'', bAsset = ''BTC'', bFreeBalance = 10, bLockedBalance = 0\<rparr>,
                \<lparr>bUserId = ''alice'', bAsset = ''ETH'', bFreeBalance = 10, bLockedBalance = 0\<rparr>,
                \<lparr>bUserId = ''bob'', bAsset = ''BTC'', bFreeBalance = 10, bLockedBalance = 0\<rparr>,
                \<lparr>bUserId = ''bob'', bAsset = ''ETH'', bFreeBalance = 10, bLockedBalance = 0\<rparr>],
             account_transactions = []\<rparr>,
      orderBooks = Map.empty, nextUuid = 0, published = []\<rparr>"

text \<open>First scenario: alice's sell of 1 at 2 rests, then bob's buy of 1 at 2 arrives.\<close>

definition alice_sell :: OrderData where
  "alice_sell = \<lparr>dUserId = ''alice'', dClientOrderId = None, dSymbol = ''ETHBTC'',
                  dType = LIMIT, dSide = SELL, dPrice = 2, dQuantity = 1, dTimeInForce = GTC\<rparr>"

definition bob_buy :: OrderData where
  "bob_buy = \<lparr>dUserId = ''bob'', dClientOrderId = None, dSymbol = ''ETHBTC'',
               dType = LIMIT, dSide = BUY, dPrice = 2, dQuantity = 1, dTimeInForce = GTC\<rparr>"

definition alice_order :: Order where
  "alice_order = newOrderRow 1 0 alice_sell"

definition bob_order :: Order where
  "bob_order = newOrderRow 2 1 bob_buy"

text \<open>The state once alice's order rests: the new book was read from the database, which
  already held the order, and the order was pushed onto it.\<close>

definition resting_world :: World where
  "resting_world =
     \<lparr>db = \<lparr>orders = [alice_order], trades = [],
             account_balances =
               [\<lparr>bUserId = ''alice'', bAsset = ''BTC'', bFreeBalance = 9, bLockedBalance = 1\<rparr>,
                \<lparr>bUserId = ''alice'', bAsset = ''ETH'', bFreeBalance = 10, bLockedBalance = 0\<rparr>,
                \<lparr>bUserId = ''bob'', bAsset = ''BTC'', bFreeBalance = 10, bLockedBalance = 0\<rparr>,
                \<lparr>bUserId = ''bob'', bAsset = ''ETH'', bFreeBalance = 10, bLockedBalance = 0\<rparr>],
             account_transactions = []\<rparr>,
      orderBooks = [''ETHBTC'' \<mapsto> \<lparr>bids = [], asks = [alice_order, alice_order]\<rparr>],
      nextUuid = 1, published = [OrderUpdate alice_order]\<rparr>"

text \<open>The state when bob's order has been created and added to the book, before matching.\<close>

definition crossed_world :: World where
  "crossed_world =
     \<lparr>db = \<lparr>orders = [alice_order, bob_order], trades = [],
             account_balances =
               [\<lparr>bUserId = ''alice'', bAsset = ''BTC'', bFreeBalance = 9, bLockedBalance = 1\<rparr>,
                \<lparr>bUserId = ''alice'', bAsset = ''ETH'', bFreeBalance = 10, bLockedBalance = 0\<rparr>,
                \<lparr>bUserId = ''bob'', bAsset = ''BTC'', bFreeBalance = 10, bLockedBalance = 0\<rparr>,
                \<lparr>bUserId = ''bob'', bAsset = ''ETH'', bFreeBalance = 8, bLockedBalance = 2\<rparr>],
             account_transactions = []\<rparr>,
      orderBooks = [''ETHBTC'' \<mapsto> \<lparr>bids = [bob_order], asks = [alice_order, alice_order]\<rparr>],
      nextUuid = 2, published = [OrderUpdate alice_order]\<rparr>"

text \<open>The trade each pass of the loop inserts in this scenario, and the orders as the
  database holds them after the first pass.\<close>

definition pass_trade :: "uuid \<Rightarrow> Trade" where
  "pass_trade n =
     \<lparr>tId = n, tOrderId = 1, tUserId = ''bob'', tSymbol = ''ETHBTC'', tPrice = 2,
      tQuantity = 1, tCommission = 1 / 500, tCommissionAsset = ''BTC'', tIsBuyer = True,
      tIsMaker = False, tIsBestMatch = True, tCreatedAt = 2\<rparr>"

definition alice_filled :: Order where
  "alice_filled = alice_order\<lparr>oFilledQuantity := 1, oStatus := FILLED, oUpdatedAt := 2,
                              oClosedAt := Some 2\<rparr>"

definition bob_filled :: Order where
  "bob_filled = bob_order\<lparr>oFilledQuantity := 1, oStatus := FILLED, oUpdatedAt := 2,
                          oClosedAt := Some 2\<rparr>"

definition pass_events :: "uuid \<Rightarrow> Event list" where
  "pass_events n = [NewTrade (pass_trade n), OrderUpdate bob_filled, OrderUpdate alice_filled]"

text \<open>The states after at least one pass: both orders are \<open>FILLED\<close> in the database and
  both are still in the book with filled quantity 0.\<close>

definition looping_world :: "Trade list \<Rightarrow> uuid \<Rightarrow> Event list \<Rightarrow> World" where
  "looping_world ts n ps =
     \<lparr>db = \<lparr>orders = [alice_filled, bob_filled], trades = ts,
             account_balances =
               [\<lparr>bUserId = ''alice'', bAsset = ''BTC'', bFreeBalance = 9, bLockedBalance = 0\<rparr>,
                \<lparr>bUserId = ''alice'', bAsset = ''ETH'', bFreeBalance = 5999 / 500,
                 bLockedBalance = 0\<rparr>,
                \<lparr>bUserId = ''bob'', bAsset = ''BTC'', bFreeBalance = 2, bLockedBalance = 0\<rparr>,
                \<lparr>bUserId = ''bob'', bAsset = ''ETH'', bFreeBalance = 1, bLockedBalance = 0\<rparr>],
             account_transactions = []\<rparr>,
      orderBooks = [''ETHBTC'' \<mapsto> \<lparr>bids = [bob_order], asks = [alice_order, alice_order]\<rparr>],
      nextUuid = n, published = ps\<rparr>"

definition first_pass_trades :: "Trade list" where
  "first_pass_trades =
     [pass_trade 2,
      \<lparr>tId = 3, tOrderId = 1, tUserId = ''bob'', tSymbol = ''ETHBTC'', tPrice = 2,
       tQuantity = 1, tCommission = 1 / 500, tCommissionAsset = ''ETH'', tIsBuyer = True,
       tIsMaker = True, tIsBestMatch = True, tCreatedAt = 2\<rparr>,
      \<lparr>tId = 4, tOrderId = 0, tUserId = ''alice'', tSymbol = ''ETHBTC'', tPrice = 2,
       tQuantity = 1, tCommission = 1 / 500, tCommissionAsset = ''ETH'', tIsBuyer = False,
       tIsMaker = True, tIsBestMatch = True, tCreatedAt = 2\<rparr>]"

text \<open>Second scenario: bob's buy of 1 at 3 rests, then alice's sell of 1 at 2 arrives.\<close>

definition bob_bid3 :: OrderData where
  "bob_bid3 = \<lparr>dUserId = ''bob'', dClientOrderId = None, dSymbol = ''ETHBTC'',
                dType = LIMIT, dSide = BUY, dPrice = 3, dQuantity = 1, dTimeInForce = GTC\<rparr>"

definition resting_bid :: Order where
  "resting_bid = newOrderRow 1 0 bob_bid3"

definition incoming_ask :: Order where
  "incoming_ask = newOrderRow 2 1 alice_sell"

definition resting_bid_world :: World where
  "resting_bid_world =
     \<lparr>db = \<lparr>orders = [resting_bid], trades = [],
             account_balances =
               [\<lparr>bUserId = ''alice'', bAsset = ''BTC'', bFreeBalance = 10, bLockedBalance = 0\<rparr>,
                \<lparr>bUserId = ''alice'', bAsset = ''ETH'', bFreeBalance = 10, bLockedBalance = 0\<rparr>,
                \<lparr>bUserId = ''bob'', bAsset = ''BTC'', bFreeBalance = 10, bLockedBalance = 0\<rparr>,
                \<lparr>bUserId = ''bob'', bAsset = ''ETH'', bFreeBalance = 7, bLockedBalance = 3\<rparr>],
             account_transactions = []\<rparr>,
      orderBooks = [''ETHBTC'' \<mapsto> \<lparr>bids = [resting_bid, resting_bid], asks = []\<rparr>],
      nextUuid = 1, published = [OrderUpdate resting_bid]\<rparr>"

definition crossed_bid_world :: World where
  "crossed_bid_world =
     \<lparr>db = \<lparr>orders = [resting_bid, incoming_ask], trades = [],
             account_balances =
               [\<lparr>bUserId = ''alice'', bAsset = ''BTC'', bFreeBalance = 9, bLockedBalance = 1\<rparr>,
                \<lparr>bUserId = ''alice'', bAsset = ''ETH'', bFreeBalance = 10, bLockedBalance = 0\<rparr>,
                \<lparr>bUserId = ''bob'', bAsset = ''BTC'', bFreeBalance = 10, bLockedBalance = 0\<rparr>,
                \<lparr>bUserId = ''bob'', bAsset = ''ETH'', bFreeBalance = 7, bLockedBalance = 3\<rparr>],
             account_transactions = []\<rparr>,
      orderBooks = [''ETHBTC'' \<mapsto> \<lparr>bids = [resting_bid, resting_bid], asks = [incoming_ask]\<rparr>],
      nextUuid = 2, published = [OrderUpdate resting_bid]\<rparr>"


definition carol_buy :: OrderData where
  "carol_buy = \<lparr>dUserId = ''carol'', dClientOrderId = None, dSymbol = ''BTCUSDT'',
                 dType = LIMIT, dSide = BUY, dPrice = 30000, dQuantity = 1, dTimeInForce = GTC\<rparr>"

definition usdt_world :: World where
  "usdt_world =
     \<lparr>db = \<lparr>orders = [], trades = [],
             account_balances =
               [\<lparr>bUserId = ''carol'', bAsset = ''USDT'', bFreeBalance = 30000, bLockedBalance = 0\<rparr>,
                \<lparr>bUserId = ''dave'', bAsset = ''BTC'', bFreeBalance = 30000, bLockedBalance = 0\<rparr>],
             account_transactions = []\<rparr>,
      orderBooks = Map.empty, nextUuid = 0, published = []\<rparr>"

definition dave_buy :: OrderData where
  "dave_buy = carol_buy\<lparr>dUserId := ''dave''\<rparr>"

text \<open>Fourth scenario: alice's resting order of the first scenario has been cancelled.\<close>

definition alice_cancelled :: Order where
  "alice_cancelled = alice_order\<lparr>oStatus := CANCELLED, oClosedAt := Some 3, oUpdatedAt := 3\<rparr>"

definition cancelled_world :: World where
  "cancelled_world =
     \<lparr>db = \<lparr>orders = [alice_cancelled], trades = [],
             account_balances =
               [\<lparr>bUserId = ''alice'', bAsset = ''BTC'', bFreeBalance = 10, bLockedBalance = 0\<rparr>,
                \<lparr>bUserId = ''alice'', bAsset = ''ETH'', bFreeBalance = 10, bLockedBalance = 0\<rparr>,
                \<lparr>bUserId = ''bob'', bAsset = ''BTC'', bFreeBalance = 10, bLockedBalance = 0\<rparr>,
                \<lparr>bUserId = ''bob'', bAsset = ''ETH'', bFreeBalance = 10, bLockedBalance = 0\<rparr>],
             account_transactions = []\<rparr>,
      orderBooks = [''ETHBTC'' \<mapsto> \<lparr>bids = [], asks = []\<rparr>],
      nextUuid = 1, published = [OrderUpdate alice_order, OrderUpdate alice_cancelled]\<rparr>"






text \<open>The terminal states of an order.\<close>

fun terminal :: "OrderStatus \<Rightarrow> bool" where
  "terminal FILLED = True"
| "terminal CANCELLED = True"
| "terminal REJECTED = True"
| "terminal EXPIRED = True"
| "terminal OPEN = False"
| "terminal PARTIALLY_FILLED = False"



section \<open>Properties of the balance store\<close>



lemma bal_key_set_column [simp]: "bal_key u a (set_column cv r) = bal_key u a r"
  by (cases "(cv, r)" rule: set_column.cases) (auto simp: bal_key_def)

lemma bal_key_fold_set_column [simp]: "bal_key u a (fold set_column sets r) = bal_key u a r"
  by (induction sets arbitrary: r) auto





section \<open>Properties of the matching loop\<close>

lemmas sql_defs = insert_order_def lock_order_funds_def lock_requirement_def
  update_balances_def sql_LEFT_def sql_RIGHT_def bal_key_def valid_balances_def
  insert_trade_def process_order_fill_def insert_balance_def upsert_balance_def
  unlock_order_funds_def

lemmas model_defs = newOrderRow_def createOrder_def getOrderById_def cancelOrder_def
  updateOrderFilledQuantity_def getOpenOrdersBySymbol_def createTrade_def updateBalance_def

lemmas engine_defs = publishOrderUpdate_def publishTrade_def addToOrderBook_def
  updateBalancesForTrade_def matchTrade_def matchIteration_def handleNewOrder_def
  handleCancelOrder_def eachMessage_def onError_def rollback_def slice_base_def
  slice_quote_def

lemmas scenario_defs = funded_world_def alice_sell_def bob_buy_def alice_order_def
  bob_order_def resting_world_def crossed_world_def pass_trade_def alice_filled_def
  bob_filled_def pass_events_def looping_world_def first_pass_trades_def bob_bid3_def
  resting_bid_def incoming_ask_def resting_bid_world_def crossed_bid_world_def

text \<open>The scenario states are the ones the service reaches.\<close>

lemma alice_rests: "eachMessage 1 1 (NewOrders alice_sell) funded_world = Some resting_world"
  by (simp add: sql_defs model_defs engine_defs scenario_defs Let_def)


lemma bob_rests: "eachMessage 1 1 (NewOrders bob_bid3) funded_world = Some resting_bid_world"
  by (simp add: sql_defs model_defs engine_defs scenario_defs Let_def)

lemma alice_arrives:
  "\<exists>w1. createOrder 2 alice_sell resting_bid_world = Inr (incoming_ask, w1) \<and>
        addToOrderBook incoming_ask w1 = crossed_bid_world"
  by (simp add: sql_defs model_defs engine_defs scenario_defs Let_def)






lemma process_order_fill_orders:
  assumes "process_order_fill now tid NEW OLD d = Inr d'"
  shows "orders d' = orders d"
  using assms
  by (auto simp: process_order_fill_def Let_def insert_trade_def split: sum.splits if_splits)






text \<open>The loop is left at once when a side of the book is empty or the best prices do not
  cross.\<close>

lemma matchOrders_no_cross:
  assumes "orderBooks w symbol = Some orderBook"
    and "bids orderBook = [] \<or> asks orderBook = [] \<or> oPrice (hd (bids orderBook)) < oPrice (hd (asks orderBook))"
  shows "matchOrders (Suc fuel) now symbol w = Some (Inr (), w)"
  using assms
  by (auto simp: matchIteration_def split: list.splits)

text \<open>
  A pass that ran to its end leaves the book as it was when the two best orders have, in
  the book, a filled quantity below their quantity: what the pass filled is written to the
  database only. So from a book whose best orders cross and are not filled the loop never
  returns normally: it is left by an exception or not at all.
\<close>

lemma createTrade_book: "createTrade now t w = Inr (ct, w1) \<Longrightarrow> orderBooks w1 = orderBooks w"
  by (auto simp: createTrade_def Let_def split: sum.splits)

lemma updateOrderFilledQuantity_book:
  "updateOrderFilledQuantity now oid q w = Inr (r, w') \<Longrightarrow> orderBooks w' = orderBooks w"
  by (auto simp: updateOrderFilledQuantity_def Let_def split: option.splits sum.splits if_splits)

lemma updateBalance_book: "updateBalance u a f l w = Inr (r, w') \<Longrightarrow> orderBooks w' = orderBooks w"
  by (auto simp: updateBalance_def Let_def split: option.splits sum.splits if_splits prod.splits)

lemma updateBalancesForTrade_book:
  assumes "updateBalancesForTrade t w = Inr w'"
  shows "orderBooks w' = orderBooks w"
proof -
  from assms obtain r1 w1 r2 where
    a: "updateBalance (tUserId t) (slice_base (tSymbol t)) (Some (tQuantity t)) None w
          = Inr (r1, w1)" and
    b: "updateBalance (tUserId t) (slice_quote (tSymbol t)) (Some (tPrice t * tQuantity t))
          None w1 = Inr (r2, w')"
    by (auto simp: updateBalancesForTrade_def Let_def split: sum.splits)
  from updateBalance_book[OF a] updateBalance_book[OF b] show ?thesis by simp
qed

lemma matchIteration_keeps_unfilled:
  assumes "matchIteration now symbol w = (Inr True, w')"
    and "orderBooks w symbol = Some orderBook"
    and "bids orderBook = bestBid # bidsRest" and "asks orderBook = bestAsk # asksRest"
    and "oFilledQuantity bestBid < oQuantity bestBid"
    and "oFilledQuantity bestAsk < oQuantity bestAsk"
  shows "orderBooks w' symbol = Some orderBook"
proof -
  define trade where "trade = matchTrade symbol bestBid bestAsk"
  from assms(1-4) obtain ct w1 r2 w2 r3 w3 w4 where
    s1: "createTrade now trade w = Inr (ct, w1)" and
    s2: "updateOrderFilledQuantity now (oId bestBid)
           (oFilledQuantity bestBid + tQuantity trade) w1 = Inr (r2, w2)" and
    s3: "updateOrderFilledQuantity now (oId bestAsk)
           (oFilledQuantity bestAsk + tQuantity trade) w2 = Inr (r3, w3)" and
    s4: "updateBalancesForTrade ct w3 = Inr w4"
    by (auto simp: matchIteration_def Let_def trade_def split: sum.splits if_splits)
  from createTrade_book[OF s1] updateOrderFilledQuantity_book[OF s2]
    updateOrderFilledQuantity_book[OF s3] updateBalancesForTrade_book[OF s4]
  have b4: "orderBooks w4 = orderBooks w" by simp
  from assms s1 s2 s3 s4 b4 show ?thesis
    by (auto simp: matchIteration_def Let_def trade_def publishTrade_def publishOrderUpdate_def
        split: option.splits if_splits)
qed

lemma matchOrders_unfilled_never_done:
  assumes "orderBooks w symbol = Some orderBook"
    and "bids orderBook = bestBid # bidsRest" and "asks orderBook = bestAsk # asksRest"
    and "oPrice bestAsk \<le> oPrice bestBid"
    and "oFilledQuantity bestBid < oQuantity bestBid"
    and "oFilledQuantity bestAsk < oQuantity bestAsk"
  shows "matchOrders fuel now symbol w \<noteq> Some (Inr (), w')"
  using assms(1)
proof (induction fuel arbitrary: w)
  case 0
  show ?case by simp
next
  case (Suc fuel)
  obtain res w1 where it: "matchIteration now symbol w = (res, w1)"
    by (cases "matchIteration now symbol w")
  show ?case
  proof (cases res)
    case (Inl e)
    with it show ?thesis by simp
  next
    case (Inr go)
    from it Inr Suc.prems assms(2-4) have go: "go"
      by (auto simp: matchIteration_def Let_def split: sum.splits if_splits)
    with it Inr have "matchIteration now symbol w = (Inr True, w1)" by simp
    from matchIteration_keeps_unfilled[OF this Suc.prems assms(2,3,5,6)]
    have "orderBooks w1 symbol = Some orderBook" .
    from Suc.IH[OF this] it Inr go show ?thesis by simp
  qed
qed


section \<open>Identifiers of stored orders\<close>

text \<open>Every operation of the service extends the state in the sense of \<open>ext\<close>: orders
  are stored by \<open>createOrder\<close> alone, under the identifier it draws, and a rollback
  restores the tables without taking the counter back.\<close>

lemma ext_refl [simp]: "ext w w"
  by (simp add: ext_def list_all_iff)

lemma ext_trans: "ext w w1 \<Longrightarrow> ext w1 w2 \<Longrightarrow> ext w w2"
  by (fastforce simp: ext_def list_all_iff)

lemma ext_same_orders:
  "nextUuid w \<le> nextUuid w' \<Longrightarrow> map oId (orders (db w')) = map oId (orders (db w)) \<Longrightarrow> ext w w'"
  by (simp add: ext_def list_all_iff)

lemma map_oId_upd:
  "oId new = k \<Longrightarrow> map oId (map (\<lambda>x. if oId x = k then new else x) xs) = map oId xs"
  by (induction xs) auto

lemma createTransaction_ext: "createTransaction now u ty a amt fee addr w = Inr (tx, w') \<Longrightarrow> ext w w'"
  by (auto simp: createTransaction_def Let_def intro!: ext_same_orders split: if_splits)

lemma updateBalance_ext: "updateBalance u a f l w = Inr (r, w') \<Longrightarrow> ext w w'"
  by (auto simp: updateBalance_def Let_def intro!: ext_same_orders
      split: option.splits sum.splits if_splits prod.splits)

lemma rollback_ext: "ext w0 w \<Longrightarrow> ext w0 (rollback w0 w)"
  by (auto simp: ext_def rollback_def list_all_iff)

lemma onError_ext: "ext w0 w \<Longrightarrow> ext w0 (onError topic e w0 w)"
  by (cases e) (auto simp: ext_def onError_def rollback_def list_all_iff)

lemma depositFunds_ext: "ext w (snd (depositFunds now u a amt w))"
proof (cases "createTransaction now u DEPOSIT a amt 0 None w")
  case (Inl e)
  then show ?thesis by (simp add: depositFunds_def rollback_ext)
next
  case (Inr p)
  then obtain tx w1 where p: "createTransaction now u DEPOSIT a amt 0 None w = Inr (tx, w1)"
    by (cases p) auto
  note e1 = createTransaction_ext[OF p]
  show ?thesis
  proof (cases "updateBalance u a (Some amt) None w1")
    case (Inl e)
    with p e1 show ?thesis by (simp add: depositFunds_def rollback_ext)
  next
    case (Inr q)
    then obtain r w2 where q: "updateBalance u a (Some amt) None w1 = Inr (r, w2)"
      by (cases q) auto
    from ext_trans[OF e1 updateBalance_ext[OF q]] p q show ?thesis
      by (simp add: depositFunds_def)
  qed
qed

lemma createOrder_ext: "createOrder now od w = Inr (order, w') \<Longrightarrow> ext w w'"
  by (auto simp: createOrder_def insert_order_def Let_def ext_def list_all_iff newOrderRow_def
      split: sum.splits if_splits)

lemma createOrder_id: "createOrder now od w = Inr (order, w') \<Longrightarrow> oId order = nextUuid w"
  by (auto simp: createOrder_def Let_def newOrderRow_def split: sum.splits)

lemma createTrade_ext: "createTrade now t w = Inr (ct, w') \<Longrightarrow> ext w w'"
  by (auto simp: createTrade_def insert_trade_def Let_def intro!: ext_same_orders
      split: sum.splits if_splits)

lemma updateOrderFilledQuantity_ext:
  assumes "updateOrderFilledQuantity now oid q w = Inr (r, w')"
  shows "ext w w'"
proof (cases "find (\<lambda>o'. oId o' = oid) (orders (db w))")
  case None
  with assms show ?thesis by (simp add: updateOrderFilledQuantity_def)
next
  case (Some OLD)
  then have "oId OLD = oid" by (auto simp: find_Some_iff)
  with assms Some show ?thesis
    by (auto simp: updateOrderFilledQuantity_def Let_def map_oId_upd
        intro!: ext_same_orders dest!: process_order_fill_orders split: sum.splits if_splits)
qed

lemma updateBalancesForTrade_ext:
  assumes "updateBalancesForTrade t w = Inr w'"
  shows "ext w w'"
proof -
  from assms obtain r1 w1 r2 where
    a: "updateBalance (tUserId t) (slice_base (tSymbol t)) (Some (tQuantity t)) None w
          = Inr (r1, w1)" and
    b: "updateBalance (tUserId t) (slice_quote (tSymbol t)) (Some (tPrice t * tQuantity t))
          None w1 = Inr (r2, w')"
    by (auto simp: updateBalancesForTrade_def Let_def split: sum.splits)
  from ext_trans[OF updateBalance_ext[OF a] updateBalance_ext[OF b]] show ?thesis .
qed

lemma cancelOrder_ext: "cancelOrder now oid u w = (r, w') \<Longrightarrow> ext w w'"
proof (cases "find (\<lambda>o'. oId o' = oid \<and> oUserId o' = u \<and>
                      (oStatus o' = OPEN \<or> oStatus o' = PARTIALLY_FILLED)) (orders (db w))")
  case None
  then show "cancelOrder now oid u w = (r, w') \<Longrightarrow> ext w w'"
    by (auto simp: cancelOrder_def)
next
  case (Some OLD)
  then have "oId OLD = oid" by (auto simp: find_Some_iff)
  with Some show "cancelOrder now oid u w = (r, w') \<Longrightarrow> ext w w'"
    by (auto simp: cancelOrder_def Let_def map_oId_upd intro!: ext_same_orders)
qed

lemma ext_memory:
  "db w' = db w \<Longrightarrow> nextUuid w' = nextUuid w \<Longrightarrow> ext w0 w \<Longrightarrow> ext w0 w'"
  by (simp add: ext_def)

lemma addToOrderBook_ext: "ext w (addToOrderBook order w)"
  by (simp add: addToOrderBook_def Let_def ext_def list_all_iff)

lemma publishOrderUpdate_ext: "ext w0 w \<Longrightarrow> ext w0 (publishOrderUpdate order w)"
  by (simp add: publishOrderUpdate_def ext_def)

lemma matchIteration_ext: "ext w (snd (matchIteration now symbol w))"
proof (cases "orderBooks w symbol")
  case None
  then show ?thesis by (simp add: matchIteration_def)
next
  case (Some orderBook)
  show ?thesis
  proof (cases "\<exists>bestBid bidsRest bestAsk asksRest. bids orderBook = bestBid # bidsRest \<and>
                  asks orderBook = bestAsk # asksRest \<and> oPrice bestAsk \<le> oPrice bestBid")
    case False
    with Some show ?thesis
      by (auto simp: matchIteration_def split: list.splits)
  next
    case True
    then obtain bestBid bidsRest bestAsk asksRest where
      b: "bids orderBook = bestBid # bidsRest" and a: "asks orderBook = bestAsk # asksRest" and
      x: "oPrice bestAsk \<le> oPrice bestBid"
      by blast
    define trade where "trade = matchTrade symbol bestBid bestAsk"
    show ?thesis
    proof (cases "createTrade now trade w")
      case (Inl e)
      with Some a b x show ?thesis
        by (simp add: matchIteration_def Let_def trade_def)
    next
      case (Inr p1)
      then obtain ct w1 where s1: "createTrade now trade w = Inr (ct, w1)"
        by (cases p1) auto
      note e1 = createTrade_ext[OF s1]
      show ?thesis
      proof (cases "updateOrderFilledQuantity now (oId bestBid)
                      (oFilledQuantity bestBid + tQuantity trade) w1")
        case (Inl e)
        with Some a b x s1 e1 show ?thesis
          by (simp add: matchIteration_def Let_def trade_def)
      next
        case (Inr p2)
        then obtain r2 w2 where s2: "updateOrderFilledQuantity now (oId bestBid)
                      (oFilledQuantity bestBid + tQuantity trade) w1 = Inr (r2, w2)"
          by (cases p2) auto
        note e2 = ext_trans[OF e1 updateOrderFilledQuantity_ext[OF s2]]
        show ?thesis
        proof (cases "updateOrderFilledQuantity now (oId bestAsk)
                        (oFilledQuantity bestAsk + tQuantity trade) w2")
          case (Inl e)
          with Some a b x s1 s2 e2 show ?thesis
            by (simp add: matchIteration_def Let_def trade_def)
        next
          case (Inr p3)
          then obtain r3 w3 where s3: "updateOrderFilledQuantity now (oId bestAsk)
                        (oFilledQuantity bestAsk + tQuantity trade) w2 = Inr (r3, w3)"
            by (cases p3) auto
          note e3 = ext_trans[OF e2 updateOrderFilledQuantity_ext[OF s3]]
          show ?thesis
          proof (cases "updateBalancesForTrade ct w3")
            case (Inl e)
            with Some a b x s1 s2 s3 e3 show ?thesis
              by (simp add: matchIteration_def Let_def trade_def)
          next
            case (Inr w4)
            note e4 = ext_trans[OF e3 updateBalancesForTrade_ext[OF Inr]]
            from Some a b x s1 s2 s3 Inr
            have "db (snd (matchIteration now symbol w)) = db w4"
              and "nextUuid (snd (matchIteration now symbol w)) = nextUuid w4"
              by (simp_all add: matchIteration_def Let_def trade_def publishTrade_def
                  publishOrderUpdate_def split: option.splits)
            from ext_memory[OF this e4] show ?thesis .
          qed
        qed
      qed
    qed
  qed
qed

lemma matchOrders_ext: "matchOrders fuel now symbol w = Some (r, w') \<Longrightarrow> ext w w'"
proof (induction fuel arbitrary: w)
  case 0
  then show ?case by simp
next
  case (Suc fuel)
  obtain res w1 where it: "matchIteration now symbol w = (res, w1)"
    by (cases "matchIteration now symbol w")
  from matchIteration_ext[of w now symbol] it have e1: "ext w w1" by simp
  show ?case
  proof (cases res)
    case (Inl e)
    with Suc.prems it e1 show ?thesis by simp
  next
    case (Inr go)
    show ?thesis
    proof (cases go)
      case True
      with Suc.prems it Inr have "matchOrders fuel now symbol w1 = Some (r, w')" by simp
      from ext_trans[OF e1 Suc.IH[OF this]] show ?thesis .
    next
      case False
      with Suc.prems it Inr e1 show ?thesis by simp
    qed
  qed
qed

lemma handleNewOrder_ext: "handleNewOrder fuel now od w = Some (r, w') \<Longrightarrow> ext w w'"
proof (cases "createOrder now od w")
  case (Inl e)
  then show "handleNewOrder fuel now od w = Some (r, w') \<Longrightarrow> ext w w'"
    by (auto simp: handleNewOrder_def)
next
  case (Inr p)
  then obtain order w1 where c: "createOrder now od w = Inr (order, w1)"
    by (cases p) auto
  note e1 = ext_trans[OF createOrder_ext[OF c] addToOrderBook_ext[of w1 order]]
  assume h: "handleNewOrder fuel now od w = Some (r, w')"
  with c obtain r3 w3 where
    m: "matchOrders fuel now (oSymbol order) (addToOrderBook order w1) = Some (r3, w3)"
    by (auto simp: handleNewOrder_def split: option.splits)
  note e3 = ext_trans[OF e1 matchOrders_ext[OF m]]
  from h c m e3 show "ext w w'"
    by (auto simp: handleNewOrder_def publishOrderUpdate_ext split: sum.splits)
qed

lemma handleCancelOrder_ext: "ext w (snd (handleCancelOrder now oid u w))"
proof (cases "cancelOrder now oid u w")
  case (Pair r w1)
  note e1 = cancelOrder_ext[OF Pair]
  show ?thesis
  proof (cases r)
    case None
    with Pair e1 show ?thesis by (simp add: handleCancelOrder_def)
  next
    case (Some cancelledOrder)
    with Pair have "db (snd (handleCancelOrder now oid u w)) = db w1"
      and "nextUuid (snd (handleCancelOrder now oid u w)) = nextUuid w1"
      by (simp_all add: handleCancelOrder_def Let_def publishOrderUpdate_def split: option.splits)
    from ext_memory[OF this e1] show ?thesis .
  qed
qed

lemma eachMessage_ext: "eachMessage fuel now message w = Some w' \<Longrightarrow> ext w w'"
proof (cases message)
  case (NewOrders od)
  assume "eachMessage fuel now message w = Some w'"
  with NewOrders obtain r w1 where
    h: "handleNewOrder fuel now od w = Some (r, w1)" and
    w': "w' = (case r of Inl e \<Rightarrow> onError ''new-orders'' e w w1 | Inr u \<Rightarrow> w1)"
    by (auto simp: eachMessage_def split: option.splits sum.splits)
  from handleNewOrder_ext[OF h] w' show "ext w w'"
    by (auto simp: onError_ext split: sum.splits)
next
  case (CancelOrders oid u)
  assume "eachMessage fuel now message w = Some w'"
  with CancelOrders handleCancelOrder_ext[of w now oid u] show "ext w w'"
    by (auto simp: eachMessage_def onError_ext split: prod.splits sum.splits)
qed

lemma exec_ext: "exec c w = Some w' \<Longrightarrow> ext w w'"
proof (cases c)
  case (Consume fuel now message)
  then show "exec c w = Some w' \<Longrightarrow> ext w w'" by (simp add: eachMessage_ext)
next
  case (Submit now od)
  then show "exec c w = Some w' \<Longrightarrow> ext w w'"
    by (auto simp: TradingService_createOrder_def Let_def intro!: ext_same_orders)
next
  case (Cancel oid u)
  then show "exec c w = Some w' \<Longrightarrow> ext w w'"
    by (auto simp: TradingService_cancelOrder_def intro!: ext_same_orders)
next
  case (Deposit now u a amt)
  then show "exec c w = Some w' \<Longrightarrow> ext w w'"
    using depositFunds_ext[of w now u a amt] by auto
qed

lemma run_ext: "run cs w = Some w' \<Longrightarrow> ext w w'"
proof (induction cs arbitrary: w)
  case Nil
  then show ?case by simp
next
  case (Cons c cs)
  then obtain w1 where e: "exec c w = Some w1" and r: "run cs w1 = Some w'"
    by (auto split: option.splits)
  from ext_trans[OF exec_ext[OF e] Cons.IH[OF r]] show ?case .
qed

text \<open>So the stored orders keep identifiers that have been drawn, through every run from a
  state where they do, such as one with no orders.\<close>

lemma run_ids_drawn:
  assumes "run cs w = Some w'" and "ids_drawn w"
  shows "ids_drawn w'"
  using run_ext[OF assms(1)] assms(2)
  by (fastforce simp: ext_def ids_drawn_def list_all_iff)


section \<open>Settlement of a fill\<close>



section \<open>Termination of the matching loop\<close>



section \<open>The price of a fill\<close>





section \<open>Orders without funds\<close>






section \<open>The asset an order locks\<close>

text \<open>
  Claim C5 says that a buy order locks price times quantity of the quote asset of its
  symbol and a sell order locks the quantity of the base asset. Trigger
  \<open>lock_order_funds\<close> takes the first three characters of the symbol as the quote asset
  and the rest as the base asset. On \<open>BTCUSDT\<close>, the example of its own comments, a buy
  of 1 at 30000 asks for 30000 \<open>BTC\<close> and a sell asks for 1 \<open>USDT\<close>: carol, who holds
  the 30000 \<open>USDT\<close>, is refused, and dave's 30000 \<open>BTC\<close> are locked.
\<close>

theorem lock_debits_wrong_asset:
  "lock_requirement (newOrderRow 1 0 carol_buy) = (''BTC'', 30000) \<and>
   lock_requirement (newOrderRow 1 0 (carol_buy\<lparr>dSide := SELL\<rparr>)) = (''USDT'', 1) \<and>
   createOrder 1 carol_buy usdt_world = Inl (Error ''Failed to create order'') \<and>
   map_sum id (account_balances \<circ> db \<circ> snd) (createOrder 1 dave_buy usdt_world) =
     Inr [\<lparr>bUserId = ''carol'', bAsset = ''USDT'', bFreeBalance = 30000, bLockedBalance = 0\<rparr>,
          \<lparr>bUserId = ''dave'', bAsset = ''BTC'', bFreeBalance = 0, bLockedBalance = 30000\<rparr>]"
  by (simp add: sql_defs model_defs usdt_world_def carol_buy_def dave_buy_def Let_def)


section \<open>Cancelling an order in a terminal state\<close>

text \<open>The fourth scenario is reached by cancelling alice's resting order.\<close>

lemma alice_cancels: "eachMessage 1 3 (CancelOrders 0 ''alice'') resting_world = Some cancelled_world"
  by (simp add: sql_defs model_defs engine_defs scenario_defs alice_cancelled_def
      cancelled_world_def Let_def)

text \<open>
  Claim C6 says that a cancel command for an order in a terminal state, such as a second
  cancel, returns success and changes nothing. In the fourth scenario the second cancel
  of alice's order throws \<open>Order not found or already cancelled\<close>.
\<close>

theorem second_cancel_counterexample:
  "fst (handleCancelOrder 4 0 ''alice'' cancelled_world) =
     Inl (Error ''Order not found or already cancelled'') \<and>
   getOrderById 0 ''alice'' cancelled_world = Some alice_cancelled \<and>
   oStatus alice_cancelled = CANCELLED"
  by (simp add: sql_defs model_defs engine_defs scenario_defs alice_cancelled_def
      cancelled_world_def Let_def)

text \<open>The update of \<open>OrderModel.cancelOrder\<close> selects no row when every row with the id and
  the user is in a terminal state.\<close>

lemma find_none_terminal:
  assumes "list_all (\<lambda>o'. terminal (oStatus o')) (filter (\<lambda>o'. oId o' = orderId \<and> oUserId o' = userId) xs)"
  shows "find (\<lambda>o'. oId o' = orderId \<and> oUserId o' = userId \<and>
                      (oStatus o' = OPEN \<or> oStatus o' = PARTIALLY_FILLED)) xs = None"
  using assms by (induction xs) (auto split: if_splits)

text \<open>
  Claim C6, amended. For every order in a terminal state (\<open>FILLED\<close>, \<open>CANCELLED\<close>,
  \<open>REJECTED\<close>, \<open>EXPIRED\<close>), a cancel command for that order, also a second cancel of an
  order already cancelled, is answered by the engine with the error \<open>Order not found or
  already cancelled\<close>, published to \<open>trading-errors\<close>, and leaves the order record, the
  balances and the order book unchanged.
\<close>

theorem cancel_terminal_fails:
  assumes "list_all (\<lambda>o'. terminal (oStatus o'))
             (filter (\<lambda>o'. oId o' = orderId \<and> oUserId o' = userId) (orders (db w)))"
  shows "handleCancelOrder now orderId userId w =
           (Inl (Error ''Order not found or already cancelled''), w) \<and>
         eachMessage fuel now (CancelOrders orderId userId) w =
           Some (w\<lparr>published := published w @
                     [TradingError ''cancel-orders'' ''Order not found or already cancelled'']\<rparr>)"
  using find_none_terminal[OF assms]
  by (simp add: eachMessage_def handleCancelOrder_def cancelOrder_def onError_def rollback_def)

theorem cancel_terminal_fails_witness:
  "filter (\<lambda>o'. oId o' = 0 \<and> oUserId o' = ''alice'') (orders (db cancelled_world)) = [alice_cancelled] \<and>
   terminal (oStatus alice_cancelled) \<and>
   handleCancelOrder 4 0 ''alice'' cancelled_world =
           (Inl (Error ''Order not found or already cancelled''), cancelled_world) \<and>
   eachMessage 1 4 (CancelOrders 0 ''alice'') cancelled_world =
           Some (cancelled_world\<lparr>published := published cancelled_world @
                     [TradingError ''cancel-orders'' ''Order not found or already cancelled'']\<rparr>)"
proof -
  have f: "filter (\<lambda>o'. oId o' = 0 \<and> oUserId o' = ''alice'') (orders (db cancelled_world)) = [alice_cancelled]"
    by (simp add: scenario_defs alice_cancelled_def cancelled_world_def newOrderRow_def)
  have t: "terminal (oStatus alice_cancelled)"
    by (simp add: alice_cancelled_def)
  from f t have "list_all (\<lambda>o'. terminal (oStatus o'))
             (filter (\<lambda>o'. oId o' = 0 \<and> oUserId o' = ''alice'') (orders (db cancelled_world)))"
    by simp
  from cancel_terminal_fails[OF this, of 4 1] f t show ?thesis by simp
qed


section \<open>Updating the filled quantity\<close>






section \<open>The trade record of a fill\<close>





section \<open>Deposits\<close>




section \<open>The order snapshot returned to the caller\<close>

text \<open>
  Claim C10. The snapshot returned by \<open>TradingService.createOrder\<close> has status \<open>OPEN\<close>,
  filled quantity 0 and a freshly generated id. Whatever the service does afterwards, no
  stored order carries that id; in particular the id under which the engine later
  persists the order is a different one. The state is one the service can be in: every
  stored order has an id that was drawn (\<open>ids_drawn\<close>, kept by every run).
\<close>

theorem snapshot_id_never_stored:
  assumes "ids_drawn w"
    and "TradingService_createOrder now orderData w = (snapshot, w1)"
  shows "oStatus snapshot = OPEN \<and> oFilledQuantity snapshot = 0 \<and>
         (\<forall>cs w2. run cs w1 = Some w2 \<longrightarrow>
            oId snapshot \<notin> set (map oId (orders (db w2))) \<and>
            (\<forall>now' order w3. createOrder now' orderData w2 = Inr (order, w3) \<longrightarrow>
               oId order \<noteq> oId snapshot))"
proof -
  from assms(2) have snap: "oStatus snapshot = OPEN" "oFilledQuantity snapshot = 0"
    "oId snapshot = nextUuid w" and w1: "nextUuid w1 = Suc (nextUuid w)" "db w1 = db w"
    by (auto simp: TradingService_createOrder_def Let_def)
  {
    fix cs w2
    assume "run cs w1 = Some w2"
    from run_ext[OF this] have n: "nextUuid w1 \<le> nextUuid w2"
      and o: "\<forall>i\<in>set (map oId (orders (db w2))). i \<in> set (map oId (orders (db w1))) \<or> nextUuid w1 \<le> i"
      by (auto simp: ext_def list_all_iff)
    from assms(1) have "nextUuid w \<notin> set (map oId (orders (db w)))"
      by (auto simp: ids_drawn_def list_all_iff)
    with o w1 have stored: "oId snapshot \<notin> set (map oId (orders (db w2)))"
      unfolding snap by fastforce
    have "oId order \<noteq> oId snapshot" if "createOrder now' orderData w2 = Inr (order, w3)" for now' order w3
      using createOrder_id[OF that] n w1 snap by simp
    with stored have "oId snapshot \<notin> set (map oId (orders (db w2))) \<and>
            (\<forall>now' order w3. createOrder now' orderData w2 = Inr (order, w3) \<longrightarrow>
               oId order \<noteq> oId snapshot)" by blast
  }
  with snap show ?thesis by blast
qed

theorem snapshot_id_never_stored_witness:
  "ids_drawn resting_world \<and>
   oId (fst (TradingService_createOrder 2 alice_sell resting_world)) = 1 \<and>
   oStatus (fst (TradingService_createOrder 2 alice_sell resting_world)) = OPEN \<and>
   oFilledQuantity (fst (TradingService_createOrder 2 alice_sell resting_world)) = 0 \<and>
   (\<exists>w2. run [Consume 1 3 (NewOrders alice_sell)]
            (snd (TradingService_createOrder 2 alice_sell resting_world)) = Some w2 \<and>
         map oId (orders (db w2)) = [0, 2] \<and>
         oId (fst (TradingService_createOrder 2 alice_sell resting_world))
           \<notin> set (map oId (orders (db w2))))"
proof -
  obtain snapshot w1 where
    s: "TradingService_createOrder 2 alice_sell resting_world = (snapshot, w1)"
    by (cases "TradingService_createOrder 2 alice_sell resting_world")
  have inv: "ids_drawn resting_world"
    by (simp add: ids_drawn_def scenario_defs newOrderRow_def)
  have id: "oId snapshot = 1"
    using s by (auto simp: TradingService_createOrder_def Let_def resting_world_def)
  have w1: "w1 = resting_world\<lparr>published := published resting_world @ [NewOrderMessage alice_sell],
                              nextUuid := 2\<rparr>"
    using s by (auto simp: TradingService_createOrder_def Let_def resting_world_def)
  have "\<exists>w2. run [Consume 1 3 (NewOrders alice_sell)] w1 = Some w2 \<and>
          map oId (orders (db w2)) = [0, 2]"
    unfolding w1
    by (simp add: sql_defs model_defs engine_defs scenario_defs Let_def)
  then obtain w2 where r: "run [Consume 1 3 (NewOrders alice_sell)] w1 = Some w2"
    and ids: "map oId (orders (db w2)) = [0, 2]"
    by (elim exE conjE)
  from snapshot_id_never_stored[OF inv s] r
  have "oStatus snapshot = OPEN" "oFilledQuantity snapshot = 0"
    "oId snapshot \<notin> set (map oId (orders (db w2)))"
    by blast+
  with inv id s r ids show ?thesis by auto
qed


end
